theory Spec2Isabelle
  imports Main "HOL-Library.Word"
begin

unbundle bit_operations_syntax

section \<open>PeachOS kernel entry: kernel.asm, kernel.c, kernel.h\<close>

text \<open>
  A shallow embedding of the kernel entry code of PeachOS: the assembly entry point
  \<open>_start\<close> and \<open>kernel_registers\<close> (kernel.asm), the console, \<open>panic\<close>,
  \<open>kernel_page\<close> and \<open>kernel_main\<close> (kernel.c) and the macro \<open>ISERR\<close> (kernel.h).

  C's \<open>char\<close> is a signed 8-bit value on the i686-elf target and is an \<open>8 word\<close> here,
  \<open>uint16_t\<close> is a \<open>16 word\<close>, \<open>int\<close> and pointers are \<open>32 word\<close>. A C string is the
  list of the bytes stored from its first byte on, the terminating NUL included.
\<close>

subsection \<open>Data\<close>

type_synonym bytes = "8 word list"

text \<open>\<open>struct gdt_structured\<close>, as the initialiser of the table in kernel.c uses it.\<close>

record gdt_structured =
  base :: "32 word"
  limit :: "32 word"
  type :: "8 word"

text \<open>
  \<open>struct tss\<close>: kernel.c touches two members only, after zeroing the whole object; the
  other members are declared in task/tss.h and stay zero.
\<close>

record tss =
  esp0 :: "32 word"
  ss0 :: "32 word"

text \<open>
  \<open>struct command_argument\<close>, with the two members kernel.c writes: the text of one
  argument (\<open>argument\<close>) and the pointer to the next node (\<open>next\<close> in the source, a
  reserved word here). \<open>None\<close> is the NULL pointer.
\<close>

record command_argument =
  argument :: bytes
  next_ptr :: "nat option"

text \<open>
  Modelled from the spec: task/process.h is not among the sources. Section 3 lists the
  components of a process; kept here are the ones the boot path gives a value to: the
  id (its slot), the file name and the arguments, which the process holds in a kernel
  buffer of its own.
\<close>

record process =
  process_id :: nat
  filename :: bytes
  program_arguments :: "bytes list"

text \<open>
  The three flags that kernel.c passes to \<open>paging_new_4gb\<close>; their bit values are in
  memory/paging/paging.h and play no part here.
\<close>

datatype paging_flag = PAGING_IS_WRITEABLE | PAGING_IS_PRESENT | PAGING_ACCESS_FROM_ALL

text \<open>
  The calls that \<open>kernel_main\<close> and \<open>kernel_page\<close> make, one for each call statement,
  with the arguments they pass by value. The machine keeps them in the order in which
  they happen.
\<close>

datatype call =
    Terminal_initialize
  | Memset_gdt_real
  | Gdt_structured_to_gdt "gdt_structured list" nat
  | Gdt_load nat
  | Kheap_init
  | Print bytes
  | Fs_init
  | Disk_search_and_init
  | Idt_init
  | Memset_tss
  | Tss_load "16 word"
  | Paging_new_4gb "paging_flag list"
  | Paging_switch "32 word"
  | Enable_paging
  | Isr80h_register_commands
  | Keyboard_init
  | Process_load_switch bytes
  | Panic bytes
  | Memset_argument
  | Strcpy bytes
  | Process_inject_arguments "nat option" nat
  | Task_run_first_ever_task
  | Kernel_registers

text \<open>
  The machine: the CPU registers the entry code writes, the bytes sent to I/O ports, the
  globals of kernel.c, the 16-bit cells of memory by byte address, and the parts of the
  rest of the kernel that the boot path reads or writes.
\<close>

record machine =
  eax :: "32 word"
  ebp :: "32 word"
  esp :: "32 word"
  ds :: "16 word"
  es :: "16 word"
  fs :: "16 word"
  gs :: "16 word"
  ss :: "16 word"
  cr3 :: "32 word"
  cr0_pg :: bool
  tr :: "16 word"
  interrupt_flag :: bool
  port_out :: "(16 word \<times> 8 word) list"
  video_mem :: "32 word"
  terminal_row :: "16 word"
  terminal_col :: "16 word"
  kernel_chunk :: "32 word"
  tss :: tss
  mem16 :: "int \<Rightarrow> 16 word"
  chunk_directory :: "32 word \<Rightarrow> 32 word"
  command_argument_at :: "nat \<Rightarrow> command_argument"
  processes :: "process list"
  current_process :: "nat option"
  calls :: "call list"

text \<open>
  A function either returns, or never returns (it spins in \<open>while(1) {}\<close>, or has left
  for user mode), or dereferences a null pointer. In each case the machine state reached
  is kept.
\<close>

datatype 'a run = Returns 'a | No_return 'a | Faults 'a

definition bind_run :: "'a run \<Rightarrow> ('a \<Rightarrow> 'a run) \<Rightarrow> 'a run" where
  "bind_run r f = (case r of Returns s \<Rightarrow> f s | No_return s \<Rightarrow> No_return s | Faults s \<Rightarrow> Faults s)"

fun final_state :: "'a run \<Rightarrow> 'a" where
  "final_state (Returns s) = s"
| "final_state (No_return s) = s"
| "final_state (Faults s) = s"

definition called :: "call \<Rightarrow> machine \<Rightarrow> machine" where
  "called c m = m\<lparr>calls := calls m @ [c]\<rparr>"

text \<open>
  The state when the boot sector jumps to the kernel: the globals as kernel.c initialises
  them (\<open>video_mem = 0\<close>, \<open>terminal_row = 0\<close>, \<open>terminal_col = 0\<close>, \<open>kernel_chunk = 0\<close>, the
  other objects zeroed), no process, nothing called yet, and everything else zero.
\<close>

definition boot_machine :: machine where
  "boot_machine =
     \<lparr>eax = 0, ebp = 0, esp = 0, ds = 0, es = 0, fs = 0, gs = 0, ss = 0, cr3 = 0,
      cr0_pg = False, tr = 0, interrupt_flag = False, port_out = [],
      video_mem = 0, terminal_row = 0, terminal_col = 0, kernel_chunk = 0,
      tss = \<lparr>esp0 = 0, ss0 = 0\<rparr>, mem16 = (\<lambda>a. 0), chunk_directory = (\<lambda>p. 0),
      command_argument_at = (\<lambda>a. \<lparr>argument = [], next_ptr = None\<rparr>),
      processes = [], current_process = None, calls = []\<rparr>"

subsection \<open>kernel.h\<close>

definition VGA_WIDTH :: int where
  "VGA_WIDTH = 80"

definition VGA_HEIGHT :: int where
  "VGA_HEIGHT = 20"

text \<open>
  \<open>#define ISERR(value) ((int)value < 0)\<close>: the 32-bit value is read as a signed
  integer and compared with zero.
\<close>

definition ISERR :: "32 word \<Rightarrow> bool" where
  "ISERR v = (sint v < 0)"

subsection \<open>The console (kernel.c)\<close>

definition TERMINAL_COLOUR :: "8 word" where
  "TERMINAL_COLOUR = 0x0F"

text \<open>
  \<open>(colour << 8) | c\<close>: both operands are promoted to \<open>int\<close> (sign extended), and the
  result is converted to \<open>uint16_t\<close>.
\<close>

definition terminal_make_char :: "8 word \<Rightarrow> 8 word \<Rightarrow> 16 word" where
  "terminal_make_char c colour =
     ucast (push_bit 8 (scast colour :: 32 word) OR (scast c :: 32 word))"

text \<open>
  \<open>video_mem[(y * VGA_WIDTH) + x] = ...\<close>: a store to the 16-bit cell at byte address
  \<open>video_mem + 2 * (y * VGA_WIDTH + x)\<close>. The callers pass values between 0 and 65535,
  for which the \<open>int\<close> arithmetic of the index does not overflow.
\<close>

definition terminal_putchar :: "int \<Rightarrow> int \<Rightarrow> 8 word \<Rightarrow> 8 word \<Rightarrow> machine \<Rightarrow> machine" where
  "terminal_putchar x y c colour m =
     m\<lparr>mem16 := (mem16 m)(uint (video_mem m) + 2 * ((y * VGA_WIDTH) + x) :=
                              terminal_make_char c colour)\<rparr>"

text \<open>
  \<open>terminal_writechar\<close> and \<open>terminal_backspace\<close> call each other: a backspace character
  goes to \<open>terminal_backspace\<close>, which writes a space through \<open>terminal_writechar\<close>.
  \<open>terminal_row\<close> and \<open>terminal_col\<close> are \<open>uint16_t\<close>: \<open>+= 1\<close> and \<open>-= 1\<close> wrap around.
\<close>

function terminal_writechar :: "8 word \<Rightarrow> 8 word \<Rightarrow> machine \<Rightarrow> machine"
  and terminal_backspace :: "machine \<Rightarrow> machine" where
  "terminal_writechar c colour m =
     (if c = 0x0A then m\<lparr>terminal_row := terminal_row m + 1, terminal_col := 0\<rparr>
      else if c = 0x08 then terminal_backspace m
      else
        let m1 = terminal_putchar (uint (terminal_col m)) (uint (terminal_row m)) c colour m;
            m2 = m1\<lparr>terminal_col := terminal_col m1 + 1\<rparr>;
            m3 = (if VGA_WIDTH \<le> uint (terminal_col m2)
                  then m2\<lparr>terminal_col := 0, terminal_row := terminal_row m2 + 1\<rparr>
                  else m2)
        in (if VGA_HEIGHT \<le> uint (terminal_row m3) then m3\<lparr>terminal_row := 0\<rparr> else m3))"
| "terminal_backspace m =
     (if terminal_row m = 0 \<and> terminal_col m = 0 then m
      else
        let m1 = (if terminal_col m = 0
                  then m\<lparr>terminal_row := terminal_row m - 1,
                         terminal_col := word_of_int VGA_WIDTH\<rparr>
                  else m);
            m2 = m1\<lparr>terminal_col := terminal_col m1 - 1\<rparr>;
            m3 = terminal_writechar 0x20 15 m2
        in m3\<lparr>terminal_col := terminal_col m3 - 1\<rparr>)"
  by pat_completeness auto
termination
  by (relation "measure (\<lambda>x. case x of Inl (c, colour, m) \<Rightarrow> if c = 0x08 then 2 else 0
                                       | Inr m \<Rightarrow> 1)") auto

declare terminal_writechar.simps [simp del] terminal_backspace.simps [simp del]

text \<open>The two nested \<open>for\<close> loops of \<open>terminal_initialize\<close> run over rows, then columns.\<close>

definition terminal_initialize :: "machine \<Rightarrow> machine" where
  "terminal_initialize m =
     (let m1 = m\<lparr>video_mem := 0xB8000\<rparr>;
          m2 = m1\<lparr>terminal_row := 0\<rparr>;
          m3 = m2\<lparr>terminal_col := 0\<rparr>
      in fold (\<lambda>y. fold (\<lambda>x. terminal_putchar x y 0x20 TERMINAL_COLOUR) [0..VGA_WIDTH - 1])
           [0..VGA_HEIGHT - 1] m3)"

text \<open>string/string.c is not among the sources; \<open>strlen\<close> has its standard C meaning.\<close>

definition strlen :: "bytes \<Rightarrow> nat" where
  "strlen str = length (takeWhile (\<lambda>b. b \<noteq> 0) str)"

definition print :: "bytes \<Rightarrow> machine \<Rightarrow> machine" where
  "print str m =
     (let len = strlen str
      in fold (\<lambda>i. terminal_writechar (str ! i) TERMINAL_COLOUR) [0..<len] m)"

text \<open>\<open>_putchar\<close> of kernel.c; a name cannot start with an underscore here.\<close>

definition putchar_underscore :: "8 word \<Rightarrow> machine \<Rightarrow> machine" where
  "putchar_underscore character m = terminal_writechar character TERMINAL_COLOUR m"

text \<open>
  \<open>while(1) {}\<close>: the condition is the constant 1 and the body is empty, so every
  iteration leads to the next one. With any number of iterations allowed the loop is
  still running.
\<close>

fun while_1 :: "nat \<Rightarrow> machine \<Rightarrow> machine run" where
  "while_1 0 m = No_return m"
| "while_1 (Suc n) m = while_1 n m"

definition panic :: "nat \<Rightarrow> bytes \<Rightarrow> machine \<Rightarrow> machine run" where
  "panic fuel msg m = (let m1 = print msg m in while_1 fuel m1)"

text \<open>
  The cells a run of text occupies: \<open>write_cells s colour p f\<close> is the memory \<open>f\<close> after the
  characters of \<open>s\<close> were stored in consecutive cells from byte address \<open>p\<close> on. It is used
  to say what \<open>print\<close> leaves on the screen.
\<close>

fun write_cells :: "bytes \<Rightarrow> 8 word \<Rightarrow> int \<Rightarrow> (int \<Rightarrow> 16 word) \<Rightarrow> (int \<Rightarrow> 16 word)" where
  "write_cells [] colour p f = f"
| "write_cells (c # s) colour p f = write_cells s colour (p + 2) (f(p := terminal_make_char c colour))"

definition cursor_address :: "machine \<Rightarrow> int" where
  "cursor_address m =
     uint (video_mem m) + 2 * (uint (terminal_row m) * VGA_WIDTH + uint (terminal_col m))"

subsection \<open>kernel.asm\<close>

definition CODE_SEG :: "16 word" where
  "CODE_SEG = 0x08"

definition DATA_SEG :: "16 word" where
  "DATA_SEG = 0x10"

text \<open>\<open>ax\<close> is the low half of \<open>eax\<close> and \<open>al\<close> its low byte.\<close>

definition ax :: "machine \<Rightarrow> 16 word" where
  "ax m = ucast (eax m)"

definition al :: "machine \<Rightarrow> 8 word" where
  "al m = ucast (eax m)"

definition mov_ax :: "16 word \<Rightarrow> machine \<Rightarrow> machine" where
  "mov_ax v m = m\<lparr>eax := (eax m AND 0xFFFF0000) OR ucast v\<rparr>"

definition mov_al :: "8 word \<Rightarrow> machine \<Rightarrow> machine" where
  "mov_al v m = m\<lparr>eax := (eax m AND 0xFFFFFF00) OR ucast v\<rparr>"

text \<open>\<open>out port, al\<close>: the byte in \<open>al\<close> goes to the I/O port.\<close>

definition out_al :: "16 word \<Rightarrow> machine \<Rightarrow> machine" where
  "out_al port m = m\<lparr>port_out := port_out m @ [(port, al m)]\<rparr>"

text \<open>
  \<open>_start\<close> from its first instruction up to, and without, \<open>call kernel_main\<close>
  (kernel.asm, lines 34 to 55).
\<close>

definition start_prologue :: "machine \<Rightarrow> machine" where
  "start_prologue m0 =
     (let m = mov_ax DATA_SEG m0;
          m = m\<lparr>ds := ax m\<rparr>;
          m = m\<lparr>es := ax m\<rparr>;
          m = m\<lparr>fs := ax m\<rparr>;
          m = m\<lparr>gs := ax m\<rparr>;
          m = m\<lparr>ss := ax m\<rparr>;
          m = m\<lparr>ebp := 0x00200000\<rparr>;
          m = m\<lparr>esp := ebp m\<rparr>;
          m = mov_al 0x11 m;
          m = out_al 0x20 m;
          m = mov_al 0x20 m;
          m = out_al 0x21 m;
          m = mov_al 0x04 m;
          m = out_al 0x21 m;
          m = mov_al 0x01 m;
          m = out_al 0x21 m
      in m)"

definition kernel_registers :: "machine \<Rightarrow> machine" where
  "kernel_registers m0 =
     (let m = mov_ax 0x10 m0;
          m = m\<lparr>ds := ax m\<rparr>;
          m = m\<lparr>es := ax m\<rparr>;
          m = m\<lparr>gs := ax m\<rparr>;
          m = m\<lparr>fs := ax m\<rparr>
      in m)"

subsection \<open>What kernel.c takes from the rest of the kernel\<close>

text \<open>
  Addresses, sizes and results that the build and the rest of the kernel decide: the
  address and size of the object \<open>tss\<close>, the size of \<open>struct gdt\<close>, the chunk that
  \<open>paging_new_4gb\<close> hands out and its page directory, the status that each of the two
  calls of \<open>process_load_switch\<close> returns, and the address of the local \<open>argument\<close> of
  \<open>kernel_main\<close>.
\<close>

record boot_env =
  tss_address :: "32 word"
  sizeof_tss :: "32 word"
  sizeof_gdt :: nat
  new_chunk :: "32 word"
  new_directory :: "32 word"
  first_load :: "32 word"
  second_load :: "32 word"
  argument_address :: nat

text \<open>
  Modelled from the spec: config.h is not among the sources. Section 4.1 has six
  descriptors in the table.
\<close>

definition PEACHOS_TOTAL_GDT_SEGMENTS :: nat where
  "PEACHOS_TOTAL_GDT_SEGMENTS = 6"

text \<open>
  Modelled from the spec: config.h is not among the sources. The kernel data segment is
  the third descriptor of section 4.1, which is selector 0x10, the \<open>DATA_SEG\<close> of
  kernel.asm.
\<close>

definition KERNEL_DATA_SELECTOR :: "32 word" where
  "KERNEL_DATA_SELECTOR = 0x10"

text \<open>
  Modelled from the spec: status.h is not among the sources. Section 7: \<open>0 = OK\<close>.
\<close>

definition PEACHOS_ALL_OK :: "32 word" where
  "PEACHOS_ALL_OK = 0"

text \<open>
  Modelled from the spec: the declaration of \<open>struct command_argument\<close> is not among the
  sources. Section 3: an argument is a string of at most 512 bytes.
\<close>

definition COMMAND_ARGUMENT_SIZE :: nat where
  "COMMAND_ARGUMENT_SIZE = 512"

text \<open>
  The initialiser of the array \<open>gdt_structured\<close>. The array has
  \<open>PEACHOS_TOTAL_GDT_SEGMENTS\<close> elements; elements without an initialiser are zero.
\<close>

definition gdt_structured_table :: "boot_env \<Rightarrow> gdt_structured list" where
  "gdt_structured_table env =
     take PEACHOS_TOTAL_GDT_SEGMENTS
       ([\<lparr>base = 0x00, limit = 0x00, type = 0x00\<rparr>,
         \<lparr>base = 0x00, limit = 0xffffffff, type = 0x9a\<rparr>,
         \<lparr>base = 0x00, limit = 0xffffffff, type = 0x92\<rparr>,
         \<lparr>base = 0x00, limit = 0xffffffff, type = 0xf8\<rparr>,
         \<lparr>base = 0x00, limit = 0xffffffff, type = 0xf2\<rparr>,
         \<lparr>base = tss_address env, limit = sizeof_tss env, type = 0xE9\<rparr>]
        @ replicate (PEACHOS_TOTAL_GDT_SEGMENTS - 6) \<lparr>base = 0, limit = 0, type = 0\<rparr>)"

text \<open>
  Modelled from the spec: task/tss.asm is not among the sources. Section 4.1: \<open>ltr\<close>
  loads the TSS selector.
\<close>

definition tss_load :: "16 word \<Rightarrow> machine \<Rightarrow> machine" where
  "tss_load tss_segment m = m\<lparr>tr := tss_segment\<rparr>"

text \<open>
  Modelled from the spec: memory/paging is not among the sources. Section 4.4:
  \<open>paging_new_4gb(flags)\<close> allocates one page directory with its page tables,
  \<open>paging_switch(dir)\<close> writes CR3, \<open>enable_paging()\<close> sets CR0.PG. A chunk is known by
  its address; \<open>chunk_directory\<close> gives the page directory that the chunk at an address
  owns.
\<close>

definition paging_new_4gb :: "boot_env \<Rightarrow> paging_flag list \<Rightarrow> machine \<Rightarrow> 32 word \<times> machine" where
  "paging_new_4gb env flags m =
     (new_chunk env,
      m\<lparr>chunk_directory := (chunk_directory m)(new_chunk env := new_directory env)\<rparr>)"

definition paging_switch :: "32 word \<Rightarrow> machine \<Rightarrow> machine" where
  "paging_switch directory m = m\<lparr>cr3 := chunk_directory m directory\<rparr>"

definition enable_paging :: "machine \<Rightarrow> machine" where
  "enable_paging m = m\<lparr>cr0_pg := True\<rparr>"

text \<open>
  string/string.c is not among the sources; \<open>strcpy\<close> has its standard C meaning: the
  characters of the source up to and with its NUL replace the first bytes of the
  destination.
\<close>

definition strcpy :: "bytes \<Rightarrow> bytes \<Rightarrow> bytes" where
  "strcpy dest src =
     (let s = takeWhile (\<lambda>b. b \<noteq> 0) src in s @ [0] @ drop (length s + 1) dest)"

text \<open>A string literal: its characters and the terminating NUL.\<close>

definition literal :: "string \<Rightarrow> bytes" where
  "literal s = map of_char s @ [0]"

text \<open>
  Modelled from the spec: task/process.c is not among the sources. Section 4.10:
  \<open>process_load\<close> allocates a process slot, loads the binary and creates the task;
  \<open>process_load_switch\<close> additionally sets the process as current. Whether the load
  succeeds is decided outside kernel.c: the status is given. On success the new process
  takes the next slot and its handle is stored through the out parameter. What a failed
  load leaves behind is not described; here it leaves the state as it is.
\<close>

definition process_load_switch ::
    "32 word \<Rightarrow> bytes \<Rightarrow> nat option \<Rightarrow> machine \<Rightarrow> 32 word \<times> nat option \<times> machine" where
  "process_load_switch status file process m =
     (if status = PEACHOS_ALL_OK
      then
        let slot = length (processes m);
            p = \<lparr>process_id = slot, filename = takeWhile (\<lambda>b. b \<noteq> 0) file,
                 program_arguments = []\<rparr>
        in (status, Some slot, m\<lparr>processes := processes m @ [p], current_process := Some slot\<rparr>)
      else (status, process, m))"

text \<open>
  The strings of a forward list of \<open>struct command_argument\<close> nodes, read from the first
  node on. A list that runs into itself is never read to its end: the result is
  \<open>None\<close>.
\<close>

partial_function (option) argument_list ::
    "(nat \<Rightarrow> command_argument) \<Rightarrow> nat option \<Rightarrow> bytes list option" where
  "argument_list store p =
     (case p of
        None \<Rightarrow> Some []
      | Some a \<Rightarrow>
          Option.bind (argument_list store (next_ptr (store a)))
            (\<lambda>rest. Some (takeWhile (\<lambda>b. b \<noteq> 0) (argument (store a)) # rest)))"

text \<open>
  Modelled from the spec: task/process.c is not among the sources. Section 4.10:
  \<open>process_inject_arguments(p, args)\<close> copies the \<open>(argc, argv)\<close> into a kernel buffer
  and maps a view into the process's address space. The process keeps the copy, not the
  address of the list it was made from.
\<close>

definition process_inject_arguments :: "nat option \<Rightarrow> nat \<Rightarrow> machine \<Rightarrow> machine run" where
  "process_inject_arguments process root m =
     (case process of
        None \<Rightarrow> Faults m
      | Some p \<Rightarrow>
          if p < length (processes m)
          then
            (case argument_list (command_argument_at m) (Some root) of
               None \<Rightarrow> No_return m
             | Some args \<Rightarrow>
                 Returns (m\<lparr>processes :=
                   (processes m)[p := (processes m ! p)\<lparr>program_arguments := args\<rparr>]\<rparr>))
          else Faults m)"

text \<open>
  Modelled from the spec: task/task.c is not among the sources. Section 4.11:
  \<open>task_run_first_ever_task\<close> picks the head of the task ring and IRETs into user
  mode. Control does not come back to the caller.
\<close>

definition task_run_first_ever_task :: "machine \<Rightarrow> machine run" where
  "task_run_first_ever_task m =
     (case processes m of
        [] \<Rightarrow> Faults m
      | p # ps \<Rightarrow> No_return (m\<lparr>current_process := Some (process_id p)\<rparr>))"

subsection \<open>kernel_page and kernel_main (kernel.c)\<close>

definition kernel_page :: "machine \<Rightarrow> machine" where
  "kernel_page m0 =
     (let m = kernel_registers (called Kernel_registers m0);
          m = paging_switch (kernel_chunk m) (called (Paging_switch (kernel_chunk m)) m)
      in m)"

text \<open>A store to a member of the \<open>struct command_argument\<close> at an address.\<close>

definition update_command_argument ::
    "nat \<Rightarrow> (command_argument \<Rightarrow> command_argument) \<Rightarrow> machine \<Rightarrow> machine" where
  "update_command_argument a f m =
     m\<lparr>command_argument_at := (command_argument_at m)(a := f (command_argument_at m a))\<rparr>"

text \<open>
  \<open>kernel_main\<close>, first part (kernel.c, lines 329 to 352): from the console to the
  members of the TSS. Functions of other files of which only the call matters here are
  recorded as calls; they are taken to leave the variables of kernel.c as they are.
\<close>

definition kernel_main_tables :: "boot_env \<Rightarrow> machine \<Rightarrow> machine" where
  "kernel_main_tables env m0 =
     (let m = terminal_initialize (called Terminal_initialize m0);
          m = called Memset_gdt_real m;
          m = called (Gdt_structured_to_gdt (gdt_structured_table env)
                        PEACHOS_TOTAL_GDT_SEGMENTS) m;
          m = called (Gdt_load (PEACHOS_TOTAL_GDT_SEGMENTS * sizeof_gdt env - 1)) m;
          m = called Kheap_init m;
          m = print (literal ''Welcome to PeachOS!\<newline>'')
                (called (Print (literal ''Welcome to PeachOS!\<newline>'')) m);
          m = called Fs_init m;
          m = called Disk_search_and_init m;
          m = called Idt_init m;
          m = (called Memset_tss m)\<lparr>tss := \<lparr>esp0 = 0, ss0 = 0\<rparr>\<rparr>;
          m = m\<lparr>tss := (tss m)\<lparr>esp0 := 0x600000\<rparr>\<rparr>;
          m = m\<lparr>tss := (tss m)\<lparr>ss0 := KERNEL_DATA_SELECTOR\<rparr>\<rparr>
      in m)"

text \<open>
  \<open>kernel_main\<close>, second part (kernel.c, lines 355 to 401): from \<open>tss_load\<close> to the end.
\<close>

definition kernel_main_rest :: "nat \<Rightarrow> boot_env \<Rightarrow> machine \<Rightarrow> machine run" where
  "kernel_main_rest fuel env m0 =
     (let m = tss_load 0x28 (called (Tss_load 0x28) m0);
          flags = [PAGING_IS_WRITEABLE, PAGING_IS_PRESENT, PAGING_ACCESS_FROM_ALL];
          (chunk, m) = paging_new_4gb env flags (called (Paging_new_4gb flags) m);
          m = m\<lparr>kernel_chunk := chunk\<rparr>;
          m = paging_switch (kernel_chunk m) (called (Paging_switch (kernel_chunk m)) m);
          m = enable_paging (called Enable_paging m);
          m = called Isr80h_register_commands m;
          m = called Keyboard_init m;
          process = None;
          (res, process, m) =
            process_load_switch (first_load env) (literal ''0:/blank.elf'') process
              (called (Process_load_switch (literal ''0:/blank.elf'')) m);
          a = argument_address env
      in
      bind_run
        (if res \<noteq> PEACHOS_ALL_OK
         then panic fuel (literal ''Failed to load blank.elf\<newline>'')
                (called (Panic (literal ''Failed to load blank.elf\<newline>'')) m)
         else Returns m)
        (\<lambda>m.
          let m = update_command_argument a
                    (\<lambda>_. \<lparr>argument = replicate COMMAND_ARGUMENT_SIZE 0, next_ptr = None\<rparr>)
                    (called Memset_argument m);
              m = update_command_argument a
                    (\<lambda>s. s\<lparr>argument := strcpy (argument s) (literal ''Testing!'')\<rparr>)
                    (called (Strcpy (literal ''Testing!'')) m);
              m = update_command_argument a (\<lambda>s. s\<lparr>next_ptr := None\<rparr>) m
          in
          bind_run
            (process_inject_arguments process a (called (Process_inject_arguments process a) m))
            (\<lambda>m.
              let (res, process, m) =
                    process_load_switch (second_load env) (literal ''0:/blank.elf'') process
                      (called (Process_load_switch (literal ''0:/blank.elf'')) m)
              in
              bind_run
                (if res \<noteq> PEACHOS_ALL_OK
                 then panic fuel (literal ''Failed to load blank.elf\<newline>'')
                        (called (Panic (literal ''Failed to load blank.elf\<newline>'')) m)
                 else Returns m)
                (\<lambda>m.
                  let m = update_command_argument a
                            (\<lambda>s. s\<lparr>argument := strcpy (argument s) (literal ''Abc!'')\<rparr>)
                            (called (Strcpy (literal ''Abc!'')) m);
                      m = update_command_argument a (\<lambda>s. s\<lparr>next_ptr := None\<rparr>) m
                  in
                  bind_run
                    (process_inject_arguments process a
                       (called (Process_inject_arguments process a) m))
                    (\<lambda>m.
                      bind_run
                        (task_run_first_ever_task (called Task_run_first_ever_task m))
                        (while_1 fuel))))))"

definition kernel_main :: "nat \<Rightarrow> boot_env \<Rightarrow> machine \<Rightarrow> machine run" where
  "kernel_main fuel env m = kernel_main_rest fuel env (kernel_main_tables env m)"

text \<open>\<open>_start\<close>: the prologue, \<open>call kernel_main\<close>, and \<open>jmp $\<close>, which jumps to itself.\<close>

definition start :: "nat \<Rightarrow> boot_env \<Rightarrow> machine \<Rightarrow> machine run" where
  "start fuel env m = bind_run (kernel_main fuel env (start_prologue m)) (while_1 fuel)"

text \<open>
  An environment for concrete runs: the two loads return the given statuses; the
  addresses and sizes are fixed values.
\<close>

definition boot_env_with :: "32 word \<Rightarrow> 32 word \<Rightarrow> boot_env" where
  "boot_env_with first second =
     \<lparr>tss_address = 0x00105000, sizeof_tss = 104, sizeof_gdt = 8, new_chunk = 0x01000000,
      new_directory = 0x01001000, first_load = first, second_load = second,
      argument_address = 0x001FFF00\<rparr>"

section \<open>Properties\<close>

subsection \<open>The error check\<close>

lemma sint_negative_iff: "(sint v < 0) = (2147483648 \<le> uint v)" for v :: "32 word"
proof -
  have b: "0 \<le> uint v" "uint v < 4294967296"
    using uint_lt2p [of v] by simp_all
  have s: "sint v = (uint v + 2147483648) mod 4294967296 - 2147483648"
    by (simp add: sint_uint signed_take_bit_eq_take_bit_shift take_bit_eq_mod)
  show ?thesis
  proof (cases "uint v < 2147483648")
    case True
    with b have "(uint v + 2147483648) mod 4294967296 = uint v + 2147483648"
      by simp
    with s True b show ?thesis by simp
  next
    case False
    have "(uint v + 2147483648) mod 4294967296 =
        (uint v - 2147483648 + 4294967296) mod 4294967296"
      by (simp add: add.commute)
    also have "\<dots> = (uint v - 2147483648) mod 4294967296"
      by (simp only: mod_add_self2)
    also have "\<dots> = uint v - 2147483648"
      using False b by simp
    finally show ?thesis using s False b by simp
  qed
qed

text \<open>
  C5. \<open>ISERR\<close> holds of a 32-bit value exactly when its sign bit (bit 31) is set, which
  is exactly when the value read as a signed integer is negative and exactly when it is
  at least \<open>2^31\<close> read as unsigned. The status 0 is not an error, and no value that is
  positive as a signed integer is.
\<close>

theorem ISERR_sign_bit:
  "(ISERR v \<longleftrightarrow> bit v 31) \<and> (ISERR v \<longleftrightarrow> sint v < 0) \<and>
   (ISERR v \<longleftrightarrow> 2147483648 \<le> uint v) \<and>
   \<not> ISERR 0 \<and> (0 < sint v \<longrightarrow> \<not> ISERR v)"
  using bit_last_iff [of v] sint_negative_iff [of v] by (auto simp add: ISERR_def)

theorem ISERR_sign_bit_witness:
  "ISERR 0xFFFFFFFF \<and> bit (0xFFFFFFFF :: 32 word) 31 \<and> 0 < sint (5 :: 32 word) \<and> \<not> ISERR 5"
  using ISERR_sign_bit [of 5] ISERR_sign_bit [of "0xFFFFFFFF"] by simp

subsection \<open>The console\<close>

lemma terminal_writechar_newline:
  "terminal_writechar 0x0A colour m =
     m\<lparr>terminal_row := terminal_row m + 1, terminal_col := 0\<rparr>"
  by (simp add: terminal_writechar.simps)

lemma terminal_writechar_other:
  assumes "c \<noteq> 0x0A" and "c \<noteq> 0x08"
  shows "terminal_writechar c colour m =
     m\<lparr>mem16 := (mem16 m)
           (uint (video_mem m) + 2 * (uint (terminal_row m) * 80 + uint (terminal_col m)) :=
              terminal_make_char c colour),
       terminal_col := (if 80 \<le> terminal_col m + 1 then 0 else terminal_col m + 1),
       terminal_row :=
         (if 20 \<le> (if 80 \<le> terminal_col m + 1 then terminal_row m + 1 else terminal_row m)
          then 0
          else (if 80 \<le> terminal_col m + 1 then terminal_row m + 1 else terminal_row m))\<rparr>"
  using assms
  by (simp add: terminal_writechar.simps terminal_putchar_def VGA_WIDTH_def VGA_HEIGHT_def
      Let_def word_le_def)

lemma terminal_make_char_low_byte: "ucast (terminal_make_char c colour) = c"
  unfolding terminal_make_char_def
  by (rule bit_word_eqI) (auto simp add: bit_simps)

lemma column_reaches_width:
  fixes c :: "16 word"
  assumes "uint c < 80"
  shows "(80 \<le> uint (c + 1)) = (uint (c + 1) = 80)"
proof -
  have "uint c + uint (1 :: 16 word) < 2 ^ LENGTH(16)" using assms by simp
  then have "uint (c + 1) = uint c + 1" using uint_add_lem [of c 1] by simp
  then show ?thesis using assms by simp arith
qed

text \<open>
  C10. For a character other than newline and backspace, \<open>terminal_writechar\<close> stores the
  character (in the low byte of the cell, with the colour) in the cell under the cursor
  and changes no other cell; the column advances by one; when the new column is 80 or
  more the column becomes 0 and the row advances by one; when the row is then 20 or more
  it becomes 0. Nothing is moved up: output that runs off the last row continues in the
  first row. With the column below 80 beforehand, the column wraps exactly when it
  reaches 80.
\<close>

theorem terminal_writechar_wraps:
  assumes "c \<noteq> 0x0A" and "c \<noteq> 0x08"
  shows "let col = terminal_col m + 1;
             wrap = (VGA_WIDTH \<le> uint col);
             row = (if wrap then terminal_row m + 1 else terminal_row m)
         in terminal_writechar c colour m =
              m\<lparr>mem16 := (mem16 m)(cursor_address m := terminal_make_char c colour),
                terminal_col := (if wrap then 0 else col),
                terminal_row := (if VGA_HEIGHT \<le> uint row then 0 else row)\<rparr> \<and>
            ucast (terminal_make_char c colour) = c \<and>
            (uint (terminal_col m) < VGA_WIDTH \<longrightarrow> wrap = (uint col = VGA_WIDTH))"
  using assms terminal_writechar_other [of c colour m] terminal_make_char_low_byte [of c colour]
    column_reaches_width [of "terminal_col m"]
  by (simp add: Let_def cursor_address_def VGA_WIDTH_def VGA_HEIGHT_def word_le_def)

theorem terminal_writechar_wraps_witness:
  "(0x41 :: 8 word) \<noteq> 0x0A \<and> (0x41 :: 8 word) \<noteq> 0x08 \<and>
   terminal_col (terminal_writechar 0x41 0x0F
      (boot_machine\<lparr>video_mem := 0xB8000, terminal_row := 19, terminal_col := 79\<rparr>)) = 0 \<and>
   terminal_row (terminal_writechar 0x41 0x0F
      (boot_machine\<lparr>video_mem := 0xB8000, terminal_row := 19, terminal_col := 79\<rparr>)) = 0 \<and>
   mem16 (terminal_writechar 0x41 0x0F
      (boot_machine\<lparr>video_mem := 0xB8000, terminal_row := 19, terminal_col := 79\<rparr>))
     (0xB8000 + 2 * (19 * 80 + 79)) = 0x0F41"
  using terminal_writechar_wraps
    [where c = "0x41" and colour = "0x0F"
       and m = "boot_machine\<lparr>video_mem := 0xB8000, terminal_row := 19, terminal_col := 79\<rparr>"]
  by (simp add: Let_def cursor_address_def VGA_WIDTH_def VGA_HEIGHT_def terminal_make_char_def)

text \<open>The console functions change the cells and the cursor, and nothing else.\<close>

lemma terminal_backspace_frame:
  "terminal_backspace m =
     m\<lparr>mem16 := mem16 (terminal_backspace m), terminal_row := terminal_row (terminal_backspace m),
       terminal_col := terminal_col (terminal_backspace m)\<rparr>"
  by (simp add: terminal_backspace.simps [of m] terminal_writechar_other Let_def)

lemma terminal_writechar_frame:
  "terminal_writechar c colour m =
     m\<lparr>mem16 := mem16 (terminal_writechar c colour m),
       terminal_row := terminal_row (terminal_writechar c colour m),
       terminal_col := terminal_col (terminal_writechar c colour m)\<rparr>"
proof (cases "c = 0x0A")
  case True
  then show ?thesis by (simp add: terminal_writechar_newline)
next
  case nl: False
  show ?thesis
  proof (cases "c = 0x08")
    case True
    have "terminal_writechar c colour m = terminal_backspace m"
      using True by (simp add: terminal_writechar.simps)
    then show ?thesis using terminal_backspace_frame [of m] by simp
  next
    case False
    then show ?thesis using nl by (simp add: terminal_writechar_other)
  qed
qed

lemma fold_writechar_frame:
  "fold (\<lambda>c. terminal_writechar c colour) s m =
     m\<lparr>mem16 := mem16 (fold (\<lambda>c. terminal_writechar c colour) s m),
       terminal_row := terminal_row (fold (\<lambda>c. terminal_writechar c colour) s m),
       terminal_col := terminal_col (fold (\<lambda>c. terminal_writechar c colour) s m)\<rparr>"
proof (induction s arbitrary: m)
  case Nil
  show ?case by simp
next
  case (Cons c s)
  let ?m1 = "terminal_writechar c colour m"
  let ?f = "fold (\<lambda>c. terminal_writechar c colour) s ?m1"
  have "fold (\<lambda>c. terminal_writechar c colour) (c # s) m = ?f"
    by simp
  also have "\<dots> = ?m1\<lparr>mem16 := mem16 ?f, terminal_row := terminal_row ?f,
       terminal_col := terminal_col ?f\<rparr>"
    by (rule Cons.IH)
  also have "\<dots> = m\<lparr>mem16 := mem16 ?f, terminal_row := terminal_row ?f,
       terminal_col := terminal_col ?f\<rparr>"
    by (subst terminal_writechar_frame [of c colour m]) simp
  finally show ?case by simp
qed

lemma fold_putchar_frame:
  "fold (\<lambda>x. terminal_putchar x y c colour) xs m =
     m\<lparr>mem16 := mem16 (fold (\<lambda>x. terminal_putchar x y c colour) xs m)\<rparr>"
proof (induction xs arbitrary: m)
  case Nil
  show ?case by simp
next
  case (Cons x xs)
  show ?case
    by (simp, subst Cons.IH) (simp add: terminal_putchar_def)
qed

lemma fold_rows_frame:
  "fold (\<lambda>y. fold (\<lambda>x. terminal_putchar x y c colour) xs) ys m =
     m\<lparr>mem16 := mem16 (fold (\<lambda>y. fold (\<lambda>x. terminal_putchar x y c colour) xs) ys m)\<rparr>"
proof (induction ys arbitrary: m)
  case Nil
  show ?case by simp
next
  case (Cons y ys)
  show ?case
    by (simp, subst Cons.IH, subst fold_putchar_frame) simp
qed

lemma terminal_initialize_frame:
  "terminal_initialize m =
     m\<lparr>video_mem := 0xB8000, terminal_row := 0, terminal_col := 0,
       mem16 := mem16 (terminal_initialize m)\<rparr>"
  unfolding terminal_initialize_def Let_def
  by (subst fold_rows_frame) simp

text \<open>What \<open>terminal_initialize\<close> leaves in memory: blanks in the 80 by 20 cells.\<close>

lemma fold_putchar_mem:
  "mem16 (fold (\<lambda>x. terminal_putchar x y c colour) xs m) a =
     (if \<exists>x \<in> set xs. a = uint (video_mem m) + 2 * (y * 80 + x)
      then terminal_make_char c colour else mem16 m a)"
proof (induction xs arbitrary: m)
  case Nil
  show ?case by simp
next
  case (Cons x xs)
  have v: "video_mem (terminal_putchar x y c colour m) = video_mem m"
    by (simp add: terminal_putchar_def)
  show ?case
    by (simp add: Cons.IH v) (auto simp add: terminal_putchar_def VGA_WIDTH_def)
qed

lemma fold_putchar_video_mem:
  "video_mem (fold (\<lambda>x. terminal_putchar x y c colour) xs m) = video_mem m"
  by (subst fold_putchar_frame) simp

lemma fold_rows_mem:
  "mem16 (fold (\<lambda>y. fold (\<lambda>x. terminal_putchar x y c colour) xs) ys m) a =
     (if \<exists>y \<in> set ys. \<exists>x \<in> set xs. a = uint (video_mem m) + 2 * (y * 80 + x)
      then terminal_make_char c colour else mem16 m a)"
proof (induction ys arbitrary: m)
  case Nil
  show ?case by simp
next
  case (Cons y ys)
  show ?case
    by (simp add: Cons.IH fold_putchar_video_mem fold_putchar_mem)
qed

lemma terminal_initialize_mem:
  "mem16 (terminal_initialize m) a =
     (if \<exists>y \<in> {0..19}. \<exists>x \<in> {0..79}. a = 0xB8000 + 2 * (y * 80 + x)
      then 0x0F20 else mem16 m a)"
  unfolding terminal_initialize_def Let_def
  by (simp add: fold_rows_mem VGA_WIDTH_def VGA_HEIGHT_def terminal_make_char_def
      TERMINAL_COLOUR_def)

lemma terminal_initialize_eq:
  "terminal_initialize m =
     m\<lparr>video_mem := 0xB8000, terminal_row := 0, terminal_col := 0,
       mem16 := (\<lambda>a. if \<exists>y \<in> {0..19}. \<exists>x \<in> {0..79}. a = 0xB8000 + 2 * (y * 80 + x)
                      then 0x0F20 else mem16 m a)\<rparr>"
proof -
  have "mem16 (terminal_initialize m) =
      (\<lambda>a. if \<exists>y \<in> {0..19}. \<exists>x \<in> {0..79}. a = 0xB8000 + 2 * (y * 80 + x)
            then 0x0F20 else mem16 m a)"
    by (rule ext) (rule terminal_initialize_mem)
  then show ?thesis
    by (subst terminal_initialize_frame) simp
qed

text \<open>Newlines move the cursor down without any bound on the row.\<close>

lemma fold_newlines:
  "fold (\<lambda>c. terminal_writechar c colour) (replicate n 0x0A) m =
     (if n = 0 then m else m\<lparr>terminal_row := terminal_row m + of_nat n, terminal_col := 0\<rparr>)"
proof (induction n arbitrary: m)
  case 0
  show ?case by simp
next
  case (Suc n)
  show ?case
    by (simp del: fold_replicate add: Suc.IH terminal_writechar_newline ac_simps)
qed

text \<open>
  C1. The newline branch of \<open>terminal_writechar\<close> returns before the test that brings the
  row back to 0. After \<open>terminal_initialize\<close> and twenty newlines the cursor is in row
  20, which is not below \<open>VGA_HEIGHT\<close>, and the next printable character is stored in
  cell \<open>20 * 80 + 0\<close>, the first cell after the 80 by 20 buffer: that cell, which
  \<open>terminal_initialize\<close> did not touch, then holds the character.
\<close>

theorem terminal_store_outside_buffer:
  "let m = fold (\<lambda>c. terminal_writechar c TERMINAL_COLOUR) (replicate 20 0x0A)
             (terminal_initialize boot_machine);
       m' = terminal_writechar 0x41 TERMINAL_COLOUR m
   in video_mem m = 0xB8000 \<and> terminal_col m = 0 \<and> terminal_row m = 20 \<and>
      \<not> uint (terminal_row m) < VGA_HEIGHT \<and>
      mem16 m (0xB8000 + 2 * (20 * VGA_WIDTH + 0)) = 0 \<and>
      mem16 m' (0xB8000 + 2 * (20 * VGA_WIDTH + 0)) = 0x0F41"
proof -
  let ?i = "terminal_initialize boot_machine"
  have i: "video_mem ?i = 0xB8000" "terminal_row ?i = 0" "terminal_col ?i = 0"
    by (subst terminal_initialize_frame, simp)+
  have "\<not> (\<exists>y \<in> {0..19}. \<exists>x \<in> {0..79}.
      (0xB8000 + 2 * (20 * 80 + 0) :: int) = 0xB8000 + 2 * (y * 80 + x))"
    by auto
  then have c: "mem16 ?i (0xB8000 + 2 * (20 * 80 + 0)) = 0"
    by (simp only: terminal_initialize_mem if_False) (simp add: boot_machine_def)
  show ?thesis
    using i c
    by (simp del: fold_replicate add: fold_newlines terminal_writechar_other Let_def
        VGA_WIDTH_def VGA_HEIGHT_def TERMINAL_COLOUR_def terminal_make_char_def)
qed

text \<open>
  After a character other than newline and backspace the cursor is inside the buffer,
  wherever it was before: the cursor leaves the buffer through the newline and backspace
  branches only.
\<close>

lemma terminal_writechar_cursor_in_range:
  assumes "c \<noteq> 0x0A" and "c \<noteq> 0x08"
  shows "uint (terminal_col (terminal_writechar c colour m)) < VGA_WIDTH \<and>
         uint (terminal_row (terminal_writechar c colour m)) < VGA_HEIGHT"
  by (simp add: terminal_writechar_other [OF assms] VGA_WIDTH_def VGA_HEIGHT_def word_le_def)

text \<open>
  A backspace at the start of a line other than the first leaves the column at 65535:
  the space it writes in column 79 of the line above wraps the cursor to column 0 of the
  line below, and the final \<open>terminal_col -= 1\<close> wraps around.
\<close>

lemma terminal_backspace_at_line_start:
  "let m = terminal_writechar 0x08 TERMINAL_COLOUR
             (terminal_writechar 0x0A TERMINAL_COLOUR (terminal_initialize boot_machine))
   in terminal_row m = 1 \<and> terminal_col m = 0xFFFF \<and> \<not> uint (terminal_col m) < VGA_WIDTH"
proof -
  let ?i = "terminal_initialize boot_machine"
  have i: "video_mem ?i = 0xB8000" "terminal_row ?i = 0" "terminal_col ?i = 0"
    by (subst terminal_initialize_frame, simp)+
  show ?thesis
    using i
    by (simp add: terminal_writechar_newline terminal_writechar.simps [of 8]
        terminal_backspace.simps [of "_\<lparr>terminal_row := _, terminal_col := _\<rparr>"]
        terminal_writechar_other Let_def VGA_WIDTH_def word_le_def unsigned_minus_1_eq_mask
        mask_eq_exp_minus_1)
qed

subsection \<open>The entry code\<close>

lemma low_half_replaced:
  "ucast ((e AND push_bit 16 k) OR ucast v :: 32 word) = (v :: 16 word)"
  by (rule bit_word_eqI) (auto simp add: bit_simps)

lemma low_byte_replaced:
  "ucast ((e AND push_bit 8 k) OR ucast v :: 32 word) = (v :: 8 word)"
  by (rule bit_word_eqI) (auto simp add: bit_simps)

lemma ax_mov_ax: "ax (mov_ax v m) = v"
proof -
  have h: "(0xFFFF0000 :: 32 word) = push_bit 16 0xFFFF" by simp
  have "ucast ((eax m AND 0xFFFF0000) OR ucast v :: 32 word) = v"
    by (simp only: h low_half_replaced)
  then show ?thesis by (simp add: ax_def mov_ax_def)
qed

lemma al_mov_al: "al (mov_al v m) = v"
proof -
  have h: "(0xFFFFFF00 :: 32 word) = push_bit 8 0xFFFFFF" by simp
  have "ucast ((eax m AND 0xFFFFFF00) OR ucast v :: 32 word) = v"
    by (simp only: h low_byte_replaced)
  then show ?thesis by (simp add: al_def mov_al_def)
qed

lemma ax_after_segment_load [simp]:
  "ax (m\<lparr>ds := a\<rparr>) = ax m" "ax (m\<lparr>es := a\<rparr>) = ax m" "ax (m\<lparr>fs := a\<rparr>) = ax m"
  "ax (m\<lparr>gs := a\<rparr>) = ax m" "ax (m\<lparr>ss := a\<rparr>) = ax m"
  by (simp_all add: ax_def)

text \<open>
  C9. In the state in which \<open>_start\<close> calls \<open>kernel_main\<close>, whatever the state it was
  entered in, DS, ES, FS, GS and SS hold the data selector 0x10 and EBP and ESP both
  hold 0x00200000. Nothing has been called before.
\<close>

theorem start_sets_segments_and_stack:
  "let m = start_prologue m0
   in ds m = DATA_SEG \<and> es m = DATA_SEG \<and> fs m = DATA_SEG \<and> gs m = DATA_SEG \<and>
      ss m = DATA_SEG \<and> DATA_SEG = 0x10 \<and> ebp m = 0x00200000 \<and> esp m = 0x00200000 \<and>
      calls m = calls m0 \<and>
      start fuel env m0 = bind_run (kernel_main fuel env m) (while_1 fuel)"
  by (simp add: start_prologue_def start_def Let_def ax_mov_ax DATA_SEG_def)
    (simp add: mov_al_def out_al_def mov_ax_def)

theorem start_sets_segments_and_stack_witness:
  "ds (start_prologue boot_machine) = 0x10 \<and> es (start_prologue boot_machine) = 0x10 \<and>
   fs (start_prologue boot_machine) = 0x10 \<and> gs (start_prologue boot_machine) = 0x10 \<and>
   ss (start_prologue boot_machine) = 0x10 \<and> ebp (start_prologue boot_machine) = 0x00200000 \<and>
   esp (start_prologue boot_machine) = 0x00200000"
  using start_sets_segments_and_stack [where ?m0.0 = boot_machine]
  by (simp add: Let_def)

text \<open>
  C8. Up to the call of \<open>kernel_main\<close>, \<open>_start\<close> writes four bytes to I/O ports, in
  this order: 0x11 to port 0x20, then 0x20 (the vector base of the master PIC), 0x04 and
  0x01 to port 0x21. Nothing has been called before.
\<close>

theorem start_remaps_master_pic:
  "let m = start_prologue m0
   in port_out m = port_out m0 @ [(0x20, 0x11), (0x21, 0x20), (0x21, 0x04), (0x21, 0x01)] \<and>
      calls m = calls m0 \<and>
      start fuel env m0 = bind_run (kernel_main fuel env m) (while_1 fuel)"
  by (simp add: start_prologue_def start_def Let_def out_al_def al_mov_al)
    (simp add: mov_al_def mov_ax_def)

theorem start_remaps_master_pic_witness:
  "port_out (start_prologue boot_machine) =
     [(0x20, 0x11), (0x21, 0x20), (0x21, 0x04), (0x21, 0x01)]"
  using start_remaps_master_pic [where ?m0.0 = boot_machine]
  by (simp add: Let_def boot_machine_def)

text \<open>
  C7. \<open>kernel_page\<close> calls \<open>kernel_registers\<close> first and \<open>paging_switch\<close> on
  \<open>kernel_chunk\<close> second. Afterwards DS, ES, FS and GS hold the kernel data selector
  0x10 and CR3 holds the page directory of the kernel chunk. SS is not written.
\<close>

theorem kernel_page_switches_to_kernel:
  "let m' = kernel_page m
   in ds m' = 0x10 \<and> es m' = 0x10 \<and> fs m' = 0x10 \<and> gs m' = 0x10 \<and> ss m' = ss m \<and>
      cr3 m' = chunk_directory m (kernel_chunk m) \<and>
      calls m' = calls m @ [Kernel_registers, Paging_switch (kernel_chunk m)]"
  by (simp add: kernel_page_def kernel_registers_def Let_def ax_mov_ax paging_switch_def
      called_def)
    (simp add: mov_ax_def)

theorem kernel_page_switches_to_kernel_witness:
  "ds (kernel_page (boot_machine\<lparr>kernel_chunk := 0x01000000,
         chunk_directory := (\<lambda>p. 0)(0x01000000 := 0x01001000)\<rparr>)) = 0x10 \<and>
   cr3 (kernel_page (boot_machine\<lparr>kernel_chunk := 0x01000000,
         chunk_directory := (\<lambda>p. 0)(0x01000000 := 0x01001000)\<rparr>)) = 0x01001000"
  using kernel_page_switches_to_kernel
    [of "boot_machine\<lparr>kernel_chunk := 0x01000000,
          chunk_directory := (\<lambda>p. 0)(0x01000000 := 0x01001000)\<rparr>"]
  by (simp add: Let_def)

subsection \<open>What print leaves on the screen\<close>

lemma fold_index:
  "n \<le> length xs \<Longrightarrow> fold (\<lambda>i. f (xs ! i)) [0..<n] m = fold f (take n xs) m"
  by (induction n) (simp_all add: take_Suc_conv_app_nth)

lemma print_fold:
  "print str m =
     fold (\<lambda>c. terminal_writechar c TERMINAL_COLOUR) (takeWhile (\<lambda>b. b \<noteq> 0) str) m"
  unfolding print_def strlen_def Let_def
  by (subst fold_index) (simp_all add: length_takeWhile_le takeWhile_eq_take [symmetric])

lemma print_frame:
  "print s m = m\<lparr>mem16 := mem16 (print s m), terminal_row := terminal_row (print s m),
                 terminal_col := terminal_col (print s m)\<rparr>"
  unfolding print_fold by (rule fold_writechar_frame)

lemma print_keeps:
  "interrupt_flag (print s m) = interrupt_flag m"
  "calls (print s m) = calls m"
  "processes (print s m) = processes m"
  by (subst print_frame, simp)+

lemma column_step:
  fixes c :: "16 word"
  assumes "uint c + 1 < 80"
  shows "uint (c + 1) = uint c + 1" and "\<not> 80 \<le> c + 1"
proof -
  have "uint c + uint (1 :: 16 word) < 2 ^ LENGTH(16)" using assms by simp
  then show u: "uint (c + 1) = uint c + 1" using uint_add_lem [of c 1] by simp
  show "\<not> 80 \<le> c + 1" using assms u by (simp add: word_le_def)
qed

text \<open>Text that fits in the rest of the line goes to the cells from the cursor on.\<close>

lemma fold_text:
  assumes "\<forall>b \<in> set s. b \<noteq> 0x0A \<and> b \<noteq> 0x08"
    and "uint (terminal_col m) + int (length s) < 80"
    and "uint (terminal_row m) < 20"
  shows "fold (\<lambda>c. terminal_writechar c colour) s m =
     m\<lparr>mem16 := write_cells s colour (cursor_address m) (mem16 m),
       terminal_col := terminal_col m + of_nat (length s)\<rparr>"
  using assms
proof (induction s arbitrary: m)
  case Nil
  show ?case by simp
next
  case (Cons c s)
  let ?m1 = "terminal_writechar c colour m"
  have c: "c \<noteq> 0x0A" "c \<noteq> 0x08" using Cons.prems(1) by simp_all
  have lt: "uint (terminal_col m) + 1 < 80" using Cons.prems(2) by simp
  have r: "\<not> 20 \<le> terminal_row m" using Cons.prems(3) by (simp add: word_le_def)
  have m1: "?m1 = m\<lparr>mem16 := (mem16 m)(cursor_address m := terminal_make_char c colour),
                     terminal_col := terminal_col m + 1\<rparr>"
    using column_step [OF lt] r
    by (simp add: terminal_writechar_other [OF c] cursor_address_def VGA_WIDTH_def)
  have a1: "cursor_address ?m1 = cursor_address m + 2"
    using column_step(1) [OF lt] by (simp add: m1 cursor_address_def)
  have "fold (\<lambda>c. terminal_writechar c colour) s ?m1 =
     ?m1\<lparr>mem16 := write_cells s colour (cursor_address ?m1) (mem16 ?m1),
       terminal_col := terminal_col ?m1 + of_nat (length s)\<rparr>"
  proof (rule Cons.IH)
    show "\<forall>b \<in> set s. b \<noteq> 0x0A \<and> b \<noteq> 0x08" using Cons.prems(1) by simp
    show "uint (terminal_col ?m1) + int (length s) < 80"
      using Cons.prems(2) column_step(1) [OF lt] by (simp add: m1)
    show "uint (terminal_row ?m1) < 20" using Cons.prems(3) by (simp add: m1)
  qed
  then show ?case
    by (simp add: a1) (simp add: m1 ac_simps)
qed

lemma print_line:
  assumes "\<forall>b \<in> set s. b \<noteq> 0 \<and> b \<noteq> 0x0A \<and> b \<noteq> 0x08"
    and "uint (terminal_col m) + int (length s) < 80"
    and "uint (terminal_row m) < 20"
  shows "print (s @ [0x0A, 0]) m =
     m\<lparr>mem16 := write_cells s TERMINAL_COLOUR (cursor_address m) (mem16 m),
       terminal_row := terminal_row m + 1, terminal_col := 0\<rparr>"
proof -
  have t: "takeWhile (\<lambda>b. b \<noteq> 0) (s @ [0x0A, 0]) = s @ [0x0A]"
    using assms(1) by (simp add: takeWhile_append2)
  have p: "\<forall>b \<in> set s. b \<noteq> 0x0A \<and> b \<noteq> 0x08" using assms(1) by simp
  show ?thesis
    by (simp add: print_fold t fold_text [OF p assms(2) assms(3)] terminal_writechar_newline)
qed

lemma write_cells_below: "a < p \<Longrightarrow> write_cells s colour p f a = f a"
  by (induction s arbitrary: p f) simp_all

lemma write_cells_read:
  "map (\<lambda>i. write_cells s colour p f (p + 2 * int i)) [0..<length s] =
     map (\<lambda>c. terminal_make_char c colour) s"
proof (induction s arbitrary: p f)
  case Nil
  show ?case by simp
next
  case (Cons c s)
  have "map (\<lambda>i. write_cells (c # s) colour p f (p + 2 * int i)) [0..<length (c # s)] =
      write_cells (c # s) colour p f p #
      map (\<lambda>i. write_cells s colour (p + 2) (f(p := terminal_make_char c colour))
                 (p + 2 + 2 * int i)) [0..<length s]"
    by (simp add: upt_conv_Cons map_Suc_upt [symmetric] del: upt_Suc) (simp add: algebra_simps)
  also have "write_cells (c # s) colour p f p = terminal_make_char c colour"
    by (simp add: write_cells_below)
  finally show ?case by (simp add: Cons.IH)
qed

lemma print_failed:
  assumes "terminal_col m = 0" and "uint (terminal_row m) < 20"
  shows "print (literal ''Failed to load blank.elf\<newline>'') m =
     m\<lparr>mem16 := write_cells (map of_char ''Failed to load blank.elf'') TERMINAL_COLOUR
                   (cursor_address m) (mem16 m),
       terminal_row := terminal_row m + 1, terminal_col := 0\<rparr>"
proof -
  have l: "literal ''Failed to load blank.elf\<newline>'' =
      map of_char ''Failed to load blank.elf'' @ [0x0A, 0]"
    by (simp add: literal_def)
  show ?thesis
    unfolding l by (rule print_line) (simp_all add: assms)
qed

lemma failed_text_cells:
  "map (\<lambda>i. write_cells (map of_char ''Failed to load blank.elf'') TERMINAL_COLOUR
              (0xB8000 + 160) f (0xB8000 + 2 * (1 * VGA_WIDTH + int i))) [0..<24] =
     map (\<lambda>c. terminal_make_char c TERMINAL_COLOUR) (map of_char ''Failed to load blank.elf'')"
proof -
  have a: "(0xB8000 + 2 * (1 * VGA_WIDTH + int i)) = (0xB8000 + 160) + 2 * int i" for i
    by (simp add: VGA_WIDTH_def)
  have l: "24 = length (map of_char ''Failed to load blank.elf'' :: bytes)" by simp
  show ?thesis
    unfolding a by (subst l) (rule write_cells_read)
qed

subsection \<open>kernel_main\<close>

lemma while_1_spins: "while_1 n m = No_return m"
  by (induction n) simp_all

lemma bind_run_panic: "bind_run (panic fuel msg m) f = panic fuel msg m"
  by (simp add: bind_run_def panic_def while_1_spins)


text \<open>The state after the first part of \<open>kernel_main\<close>.\<close>

lemma kernel_main_tables_eq:
  "kernel_main_tables env m =
     m\<lparr>video_mem := 0xB8000, terminal_row := 1, terminal_col := 0,
       mem16 := write_cells (map of_char ''Welcome to PeachOS!'') TERMINAL_COLOUR 0xB8000
                  (\<lambda>a. if \<exists>y \<in> {0..19}. \<exists>x \<in> {0..79}. a = 0xB8000 + 2 * (y * 80 + x)
                        then 0x0F20 else mem16 m a),
       tss := \<lparr>esp0 = 0x600000, ss0 = 0x10\<rparr>,
       calls := calls m @
         [Terminal_initialize, Memset_gdt_real,
          Gdt_structured_to_gdt (gdt_structured_table env) 6,
          Gdt_load (6 * sizeof_gdt env - 1), Kheap_init,
          Print (literal ''Welcome to PeachOS!\<newline>''), Fs_init, Disk_search_and_init,
          Idt_init, Memset_tss]\<rparr>"
  (is "_ = ?R")
proof -
  define m1 where "m1 = called (Print (literal ''Welcome to PeachOS!\<newline>''))
    (called Kheap_init (called (Gdt_load (PEACHOS_TOTAL_GDT_SEGMENTS * sizeof_gdt env - 1))
      (called (Gdt_structured_to_gdt (gdt_structured_table env) PEACHOS_TOTAL_GDT_SEGMENTS)
        (called Memset_gdt_real (terminal_initialize (called Terminal_initialize m))))))"
  have l: "literal ''Welcome to PeachOS!\<newline>'' =
      map of_char ''Welcome to PeachOS!'' @ [0x0A, 0]"
    by (simp add: literal_def)
  have c: "terminal_col m1 = 0" "terminal_row m1 = 0" "video_mem m1 = 0xB8000"
    by (simp_all add: m1_def called_def terminal_initialize_eq)
  have p: "print (map of_char ''Welcome to PeachOS!'' @ [0x0A, 0]) m1 =
      m1\<lparr>mem16 := write_cells (map of_char ''Welcome to PeachOS!'') TERMINAL_COLOUR
                     (cursor_address m1) (mem16 m1),
         terminal_row := terminal_row m1 + 1, terminal_col := 0\<rparr>"
    by (rule print_line) (simp_all add: c)
  have "kernel_main_tables env m =
      (let m = print (map of_char ''Welcome to PeachOS!'' @ [0x0A, 0]) m1;
           m = called Fs_init m;
           m = called Disk_search_and_init m;
           m = called Idt_init m;
           m = (called Memset_tss m)\<lparr>tss := \<lparr>esp0 = 0, ss0 = 0\<rparr>\<rparr>;
           m = m\<lparr>tss := (tss m)\<lparr>esp0 := 0x600000\<rparr>\<rparr>;
           m = m\<lparr>tss := (tss m)\<lparr>ss0 := KERNEL_DATA_SELECTOR\<rparr>\<rparr>
       in m)"
    unfolding kernel_main_tables_def m1_def Let_def l ..
  also have "\<dots> = ?R"
    unfolding p Let_def
    by (simp add: cursor_address_def c called_def KERNEL_DATA_SELECTOR_def
          del: write_cells.simps)
      (simp add: m1_def called_def terminal_initialize_eq PEACHOS_TOTAL_GDT_SEGMENTS_def
          del: write_cells.simps cong: if_cong)
  finally show ?thesis .
qed

lemma kernel_main_tables_fields:
  "terminal_col (kernel_main_tables env m) = 0"
  "uint (terminal_row (kernel_main_tables env m)) < 20"
  "terminal_row (kernel_main_tables env m) = 1"
  "video_mem (kernel_main_tables env m) = 0xB8000"
  "calls (kernel_main_tables env m) = calls m @
         [Terminal_initialize, Memset_gdt_real,
          Gdt_structured_to_gdt (gdt_structured_table env) 6,
          Gdt_load (6 * sizeof_gdt env - 1), Kheap_init,
          Print (literal ''Welcome to PeachOS!\<newline>''), Fs_init, Disk_search_and_init,
          Idt_init, Memset_tss]"
  "processes (kernel_main_tables env m) = processes m"
  "tss (kernel_main_tables env m) = \<lparr>esp0 = 0x600000, ss0 = 0x10\<rparr>"
  "tr (kernel_main_tables env m) = tr m"
  "interrupt_flag (kernel_main_tables env m) = interrupt_flag m"
  by (simp_all add: kernel_main_tables_eq del: write_cells.simps)

lemmas boot_defs = kernel_main_rest_def Let_def tss_load_def called_def paging_new_4gb_def
  paging_switch_def enable_paging_def process_load_switch_def bind_run_def panic_def
  while_1_spins update_command_argument_def

text \<open>The second part of \<open>kernel_main\<close> when the first load fails.\<close>

lemma kernel_main_rest_calls_panic:
  assumes "first_load env \<noteq> PEACHOS_ALL_OK"
  shows "kernel_main_rest fuel env m =
     panic fuel (literal ''Failed to load blank.elf\<newline>'')
       (m\<lparr>tr := 0x28,
          chunk_directory := (chunk_directory m)(new_chunk env := new_directory env),
          kernel_chunk := new_chunk env, cr3 := new_directory env, cr0_pg := True,
          calls := calls m @
            [Tss_load 0x28,
             Paging_new_4gb [PAGING_IS_WRITEABLE, PAGING_IS_PRESENT, PAGING_ACCESS_FROM_ALL],
             Paging_switch (new_chunk env), Enable_paging, Isr80h_register_commands,
             Keyboard_init, Process_load_switch (literal ''0:/blank.elf''),
             Panic (literal ''Failed to load blank.elf\<newline>'')]\<rparr>)"
  using assms
  by (simp add: kernel_main_rest_def Let_def tss_load_def called_def paging_new_4gb_def
      paging_switch_def enable_paging_def process_load_switch_def bind_run_panic)

lemma kernel_main_rest_first_load_fails:
  assumes "first_load env \<noteq> PEACHOS_ALL_OK"
    and "terminal_col m = 0" and "uint (terminal_row m) < 20"
  shows "kernel_main_rest fuel env m =
     No_return
       (m\<lparr>tr := 0x28, kernel_chunk := new_chunk env,
          chunk_directory := (chunk_directory m)(new_chunk env := new_directory env),
          cr3 := new_directory env, cr0_pg := True,
          calls := calls m @
            [Tss_load 0x28,
             Paging_new_4gb [PAGING_IS_WRITEABLE, PAGING_IS_PRESENT, PAGING_ACCESS_FROM_ALL],
             Paging_switch (new_chunk env), Enable_paging, Isr80h_register_commands,
             Keyboard_init, Process_load_switch (literal ''0:/blank.elf''),
             Panic (literal ''Failed to load blank.elf\<newline>'')],
          mem16 := write_cells (map of_char ''Failed to load blank.elf'') TERMINAL_COLOUR
                     (cursor_address m) (mem16 m),
          terminal_row := terminal_row m + 1, terminal_col := 0\<rparr>)"
  using assms
  by (simp add: boot_defs print_failed cursor_address_def del: write_cells.simps)

lemma kernel_main_first_load_fails:
  assumes "first_load env \<noteq> PEACHOS_ALL_OK"
  shows "kernel_main fuel env m =
     No_return
       ((kernel_main_tables env m)\<lparr>tr := 0x28, kernel_chunk := new_chunk env,
          chunk_directory := (chunk_directory m)(new_chunk env := new_directory env),
          cr3 := new_directory env, cr0_pg := True,
          calls := calls (kernel_main_tables env m) @
            [Tss_load 0x28,
             Paging_new_4gb [PAGING_IS_WRITEABLE, PAGING_IS_PRESENT, PAGING_ACCESS_FROM_ALL],
             Paging_switch (new_chunk env), Enable_paging, Isr80h_register_commands,
             Keyboard_init, Process_load_switch (literal ''0:/blank.elf''),
             Panic (literal ''Failed to load blank.elf\<newline>'')],
          mem16 := write_cells (map of_char ''Failed to load blank.elf'') TERMINAL_COLOUR
                     (0xB8000 + 160) (mem16 (kernel_main_tables env m)),
          terminal_row := 2, terminal_col := 0\<rparr>)"
  using assms
  by (simp add: kernel_main_def kernel_main_rest_first_load_fails kernel_main_tables_fields
      cursor_address_def VGA_WIDTH_def del: write_cells.simps)
    (simp add: kernel_main_tables_eq del: write_cells.simps)

text \<open>The argument list that \<open>kernel_main\<close> builds has one node.\<close>

lemma argument_list_single:
  "next_ptr (store a) = None \<Longrightarrow>
   argument_list store (Some a) = Some [takeWhile (\<lambda>b. b \<noteq> 0) (argument (store a))]"
  by (subst argument_list.simps, simp, subst argument_list.simps, simp)

lemma strcpy_testing:
  "strcpy (replicate COMMAND_ARGUMENT_SIZE 0) (literal ''Testing!'') =
     map of_char ''Testing!'' @ 0 # replicate 503 0"
  by (simp add: strcpy_def literal_def COMMAND_ARGUMENT_SIZE_def)

lemma task_run_first_ever_task_head:
  "processes m \<noteq> [] \<Longrightarrow>
   task_run_first_ever_task m =
     No_return (m\<lparr>current_process := Some (process_id (hd (processes m)))\<rparr>)"
  by (cases "processes m") (simp_all add: task_run_first_ever_task_def)

text \<open>The second part of \<open>kernel_main\<close> when the second load fails.\<close>

lemma kernel_main_rest_second_load_fails:
  assumes "first_load env = PEACHOS_ALL_OK" and "second_load env \<noteq> PEACHOS_ALL_OK"
    and "terminal_col m = 0" and "uint (terminal_row m) < 20"
  shows "kernel_main_rest fuel env m =
     No_return
       (m\<lparr>tr := 0x28, kernel_chunk := new_chunk env,
          chunk_directory := (chunk_directory m)(new_chunk env := new_directory env),
          cr3 := new_directory env, cr0_pg := True,
          command_argument_at := (command_argument_at m)(argument_address env :=
            \<lparr>argument = map of_char ''Testing!'' @ 0 # replicate 503 0, next_ptr = None\<rparr>),
          processes := processes m @
            [\<lparr>process_id = length (processes m), filename = map of_char ''0:/blank.elf'',
              program_arguments = [map of_char ''Testing!'']\<rparr>],
          current_process := Some (length (processes m)),
          calls := calls m @
            [Tss_load 0x28,
             Paging_new_4gb [PAGING_IS_WRITEABLE, PAGING_IS_PRESENT, PAGING_ACCESS_FROM_ALL],
             Paging_switch (new_chunk env), Enable_paging, Isr80h_register_commands,
             Keyboard_init, Process_load_switch (literal ''0:/blank.elf''),
             Memset_argument, Strcpy (literal ''Testing!''),
             Process_inject_arguments (Some (length (processes m))) (argument_address env),
             Process_load_switch (literal ''0:/blank.elf''),
             Panic (literal ''Failed to load blank.elf\<newline>'')],
          mem16 := write_cells (map of_char ''Failed to load blank.elf'') TERMINAL_COLOUR
                     (cursor_address m) (mem16 m),
          terminal_row := terminal_row m + 1, terminal_col := 0\<rparr>)"
  using assms
  by (simp add: boot_defs process_inject_arguments_def argument_list_single
      print_failed cursor_address_def strcpy_testing list_update_append nth_append
      del: write_cells.simps)
    (simp add: literal_def strcpy_def COMMAND_ARGUMENT_SIZE_def del: write_cells.simps)

text \<open>The second part of \<open>kernel_main\<close> when both loads succeed.\<close>

lemma kernel_main_rest_loads:
  assumes "first_load env = PEACHOS_ALL_OK" and "second_load env = PEACHOS_ALL_OK"
  shows "kernel_main_rest fuel env m =
     No_return
       (m\<lparr>tr := 0x28, kernel_chunk := new_chunk env,
          chunk_directory := (chunk_directory m)(new_chunk env := new_directory env),
          cr3 := new_directory env, cr0_pg := True,
          command_argument_at := (command_argument_at m)(argument_address env :=
            \<lparr>argument = map of_char ''Abc!'' @ 0 # map of_char ''ng!'' @ 0 # replicate 503 0,
             next_ptr = None\<rparr>),
          processes := processes m @
            [\<lparr>process_id = length (processes m), filename = map of_char ''0:/blank.elf'',
              program_arguments = [map of_char ''Testing!'']\<rparr>,
             \<lparr>process_id = length (processes m) + 1, filename = map of_char ''0:/blank.elf'',
              program_arguments = [map of_char ''Abc!'']\<rparr>],
          current_process := Some (if processes m = [] then length (processes m)
                                   else process_id (hd (processes m))),
          calls := calls m @
            [Tss_load 0x28,
             Paging_new_4gb [PAGING_IS_WRITEABLE, PAGING_IS_PRESENT, PAGING_ACCESS_FROM_ALL],
             Paging_switch (new_chunk env), Enable_paging, Isr80h_register_commands,
             Keyboard_init, Process_load_switch (literal ''0:/blank.elf''),
             Memset_argument, Strcpy (literal ''Testing!''),
             Process_inject_arguments (Some (length (processes m))) (argument_address env),
             Process_load_switch (literal ''0:/blank.elf''),
             Strcpy (literal ''Abc!''),
             Process_inject_arguments (Some (length (processes m) + 1)) (argument_address env),
             Task_run_first_ever_task]\<rparr>)"
  using assms
  by (simp add: boot_defs process_inject_arguments_def argument_list_single
      task_run_first_ever_task_head literal_def strcpy_def COMMAND_ARGUMENT_SIZE_def
      list_update_append nth_append)

lemma kernel_main_cases:
  obtains (first_fails) "first_load env \<noteq> PEACHOS_ALL_OK"
  | (second_fails) "first_load env = PEACHOS_ALL_OK" "second_load env \<noteq> PEACHOS_ALL_OK"
  | (loaded) "first_load env = PEACHOS_ALL_OK" "second_load env = PEACHOS_ALL_OK"
  by blast


text \<open>
  C2. Whatever the loads return, \<open>kernel_main\<close> begins with these calls, in this order:
  the console (\<open>terminal_initialize\<close>), the GDT (built, then loaded), the kernel heap, the
  welcome message, the filesystems and the disk probe, the IDT, the TSS (zeroed and set,
  then loaded), the kernel page directory (\<open>paging_new_4gb\<close>), the switch to it and
  \<open>enable_paging\<close>, the syscall commands, the keyboards, and the load of the first
  process by \<open>process_load_switch\<close>. When both loads succeed, the calls that follow are
  the injection of the first arguments, the second load and injection, and last of all
  \<open>task_run_first_ever_task\<close>, from which \<open>kernel_main\<close> does not return.
\<close>

theorem kernel_main_boot_order:
  "let final = final_state (kernel_main fuel env m);
       n = length (processes m);
       a = argument_address env;
       first_steps =
         [Terminal_initialize, Memset_gdt_real,
          Gdt_structured_to_gdt (gdt_structured_table env) PEACHOS_TOTAL_GDT_SEGMENTS,
          Gdt_load (PEACHOS_TOTAL_GDT_SEGMENTS * sizeof_gdt env - 1), Kheap_init,
          Print (literal ''Welcome to PeachOS!\<newline>''), Fs_init, Disk_search_and_init,
          Idt_init, Memset_tss, Tss_load 0x28,
          Paging_new_4gb [PAGING_IS_WRITEABLE, PAGING_IS_PRESENT, PAGING_ACCESS_FROM_ALL],
          Paging_switch (new_chunk env), Enable_paging, Isr80h_register_commands,
          Keyboard_init, Process_load_switch (literal ''0:/blank.elf'')]
   in (\<exists>rest. calls final = calls m @ first_steps @ rest) \<and>
      (first_load env = PEACHOS_ALL_OK \<and> second_load env = PEACHOS_ALL_OK \<longrightarrow>
         kernel_main fuel env m = No_return final \<and>
         calls final = calls m @ first_steps @
           [Memset_argument, Strcpy (literal ''Testing!''),
            Process_inject_arguments (Some n) a,
            Process_load_switch (literal ''0:/blank.elf''), Strcpy (literal ''Abc!''),
            Process_inject_arguments (Some (n + 1)) a, Task_run_first_ever_task])"
proof (cases env rule: kernel_main_cases)
  case first_fails
  then show ?thesis
    by (simp add: kernel_main_def Let_def kernel_main_rest_first_load_fails
        kernel_main_tables_fields PEACHOS_TOTAL_GDT_SEGMENTS_def del: write_cells.simps)
next
  case second_fails
  then show ?thesis
    by (simp add: kernel_main_def Let_def kernel_main_rest_second_load_fails
        kernel_main_tables_fields PEACHOS_TOTAL_GDT_SEGMENTS_def del: write_cells.simps)
next
  case loaded
  then show ?thesis
    by (simp add: kernel_main_def Let_def kernel_main_rest_loads kernel_main_tables_fields
        PEACHOS_TOTAL_GDT_SEGMENTS_def del: write_cells.simps)
qed

theorem kernel_main_boot_order_witness:
  "first_load (boot_env_with 0 0) = PEACHOS_ALL_OK \<and>
   second_load (boot_env_with 0 0) = PEACHOS_ALL_OK \<and>
   kernel_main 0 (boot_env_with 0 0) boot_machine =
     No_return (final_state (kernel_main 0 (boot_env_with 0 0) boot_machine)) \<and>
   calls (final_state (kernel_main 0 (boot_env_with 0 0) boot_machine)) =
     [Terminal_initialize, Memset_gdt_real,
      Gdt_structured_to_gdt (gdt_structured_table (boot_env_with 0 0)) 6,
      Gdt_load 47, Kheap_init,
      Print (literal ''Welcome to PeachOS!\<newline>''), Fs_init, Disk_search_and_init,
      Idt_init, Memset_tss, Tss_load 0x28,
      Paging_new_4gb [PAGING_IS_WRITEABLE, PAGING_IS_PRESENT, PAGING_ACCESS_FROM_ALL],
      Paging_switch 0x01000000, Enable_paging, Isr80h_register_commands,
      Keyboard_init, Process_load_switch (literal ''0:/blank.elf''),
      Memset_argument, Strcpy (literal ''Testing!''),
      Process_inject_arguments (Some 0) 0x001FFF00,
      Process_load_switch (literal ''0:/blank.elf''), Strcpy (literal ''Abc!''),
      Process_inject_arguments (Some 1) 0x001FFF00, Task_run_first_ever_task]"
  using kernel_main_boot_order [of 0 "boot_env_with 0 0" boot_machine]
  by (simp add: Let_def boot_env_with_def PEACHOS_ALL_OK_def boot_machine_def
      PEACHOS_TOTAL_GDT_SEGMENTS_def)





text \<open>
  C4. \<open>panic\<close> prints its message and then never returns, however long it is left to
  run; the state it stays in is the state after the \<open>print\<close>, and the interrupt flag in
  it is as it was. When the first \<open>process_load_switch\<close> returns a status other than
  \<open>PEACHOS_ALL_OK\<close>, \<open>kernel_main\<close> calls \<open>panic\<close> right after that load and nothing
  else afterwards: \<open>kernel_main\<close> never returns, the interrupt flag is as it was when
  \<open>panic\<close> was called, and the message stands in the second row of the screen with the
  cursor below it. A failure of the second load ends in \<open>panic\<close> in the same way.
\<close>

theorem kernel_main_panics_when_load_fails:
  "panic fuel msg s = No_return (print msg s) \<and>
   interrupt_flag (print msg s) = interrupt_flag s \<and>
   (first_load env \<noteq> PEACHOS_ALL_OK \<longrightarrow>
      (let final = final_state (kernel_main fuel env m);
           failed = literal ''Failed to load blank.elf\<newline>''
       in kernel_main fuel env m = No_return final \<and>
          (\<exists>before. kernel_main fuel env m = panic fuel failed before \<and>
                    calls before = calls final \<and>
                    interrupt_flag final = interrupt_flag before) \<and>
          calls final = calls m @
            [Terminal_initialize, Memset_gdt_real,
             Gdt_structured_to_gdt (gdt_structured_table env) PEACHOS_TOTAL_GDT_SEGMENTS,
             Gdt_load (PEACHOS_TOTAL_GDT_SEGMENTS * sizeof_gdt env - 1), Kheap_init,
             Print (literal ''Welcome to PeachOS!\<newline>''), Fs_init, Disk_search_and_init,
             Idt_init, Memset_tss, Tss_load 0x28,
             Paging_new_4gb [PAGING_IS_WRITEABLE, PAGING_IS_PRESENT, PAGING_ACCESS_FROM_ALL],
             Paging_switch (new_chunk env), Enable_paging, Isr80h_register_commands,
             Keyboard_init, Process_load_switch (literal ''0:/blank.elf''), Panic failed] \<and>
          map (\<lambda>i. mem16 final (0xB8000 + 2 * (1 * VGA_WIDTH + int i))) [0..<24] =
            map (\<lambda>c. terminal_make_char c TERMINAL_COLOUR)
              (map of_char ''Failed to load blank.elf'') \<and>
          terminal_row final = 2 \<and> terminal_col final = 0)) \<and>
   (first_load env = PEACHOS_ALL_OK \<and> second_load env \<noteq> PEACHOS_ALL_OK \<longrightarrow>
      (\<exists>final. kernel_main fuel env m = No_return final \<and>
         last (calls final) = Panic (literal ''Failed to load blank.elf\<newline>'')))"
proof (intro conjI impI)
  show "panic fuel msg s = No_return (print msg s)"
    by (simp add: panic_def while_1_spins)
  show "interrupt_flag (print msg s) = interrupt_flag s"
    by (rule print_keeps)
next
  assume f: "first_load env \<noteq> PEACHOS_ALL_OK"
  let ?t = "kernel_main_tables env m"
  have p: "kernel_main fuel env m =
     panic fuel (literal ''Failed to load blank.elf\<newline>'')
       (?t\<lparr>tr := 0x28,
          chunk_directory := (chunk_directory ?t)(new_chunk env := new_directory env),
          kernel_chunk := new_chunk env, cr3 := new_directory env, cr0_pg := True,
          calls := calls ?t @
            [Tss_load 0x28,
             Paging_new_4gb [PAGING_IS_WRITEABLE, PAGING_IS_PRESENT, PAGING_ACCESS_FROM_ALL],
             Paging_switch (new_chunk env), Enable_paging, Isr80h_register_commands,
             Keyboard_init, Process_load_switch (literal ''0:/blank.elf''),
             Panic (literal ''Failed to load blank.elf\<newline>'')]\<rparr>)"
    unfolding kernel_main_def by (rule kernel_main_rest_calls_panic [OF f])
  have c: "\<exists>before. kernel_main fuel env m =
        panic fuel (literal ''Failed to load blank.elf\<newline>'') before \<and>
      calls before = calls (final_state (kernel_main fuel env m)) \<and>
      interrupt_flag (final_state (kernel_main fuel env m)) = interrupt_flag before"
    by (rule exI, rule conjI, rule p)
      (simp add: kernel_main_first_load_fails [OF f] del: write_cells.simps)
  show "let final = final_state (kernel_main fuel env m);
           failed = literal ''Failed to load blank.elf\<newline>''
       in kernel_main fuel env m = No_return final \<and>
          (\<exists>before. kernel_main fuel env m = panic fuel failed before \<and>
                    calls before = calls final \<and>
                    interrupt_flag final = interrupt_flag before) \<and>
          calls final = calls m @
            [Terminal_initialize, Memset_gdt_real,
             Gdt_structured_to_gdt (gdt_structured_table env) PEACHOS_TOTAL_GDT_SEGMENTS,
             Gdt_load (PEACHOS_TOTAL_GDT_SEGMENTS * sizeof_gdt env - 1), Kheap_init,
             Print (literal ''Welcome to PeachOS!\<newline>''), Fs_init, Disk_search_and_init,
             Idt_init, Memset_tss, Tss_load 0x28,
             Paging_new_4gb [PAGING_IS_WRITEABLE, PAGING_IS_PRESENT, PAGING_ACCESS_FROM_ALL],
             Paging_switch (new_chunk env), Enable_paging, Isr80h_register_commands,
             Keyboard_init, Process_load_switch (literal ''0:/blank.elf''), Panic failed] \<and>
          map (\<lambda>i. mem16 final (0xB8000 + 2 * (1 * VGA_WIDTH + int i))) [0..<24] =
            map (\<lambda>c. terminal_make_char c TERMINAL_COLOUR)
              (map of_char ''Failed to load blank.elf'') \<and>
          terminal_row final = 2 \<and> terminal_col final = 0"
    unfolding Let_def
  proof (intro conjI)
    show "\<exists>before. kernel_main fuel env m =
        panic fuel (literal ''Failed to load blank.elf\<newline>'') before \<and>
      calls before = calls (final_state (kernel_main fuel env m)) \<and>
      interrupt_flag (final_state (kernel_main fuel env m)) = interrupt_flag before"
      by (rule c)
    show "map (\<lambda>i. mem16 (final_state (kernel_main fuel env m))
              (0xB8000 + 2 * (1 * VGA_WIDTH + int i))) [0..<24] =
        map (\<lambda>c. terminal_make_char c TERMINAL_COLOUR)
          (map of_char ''Failed to load blank.elf'')"
      using failed_text_cells [of "mem16 ?t"]
      by (simp only: kernel_main_first_load_fails [OF f] final_state.simps)
        (simp del: write_cells.simps)
  qed (simp_all add: kernel_main_first_load_fails [OF f] kernel_main_tables_fields
        PEACHOS_TOTAL_GDT_SEGMENTS_def del: write_cells.simps)
next
  assume "first_load env = PEACHOS_ALL_OK \<and> second_load env \<noteq> PEACHOS_ALL_OK"
  then show "\<exists>final. kernel_main fuel env m = No_return final \<and>
         last (calls final) = Panic (literal ''Failed to load blank.elf\<newline>'')"
    by (simp add: kernel_main_def kernel_main_rest_second_load_fails kernel_main_tables_fields
        del: write_cells.simps)
qed

theorem kernel_main_panics_when_load_fails_witness:
  "first_load (boot_env_with (- 1) 0) \<noteq> PEACHOS_ALL_OK \<and>
   kernel_main 0 (boot_env_with (- 1) 0) boot_machine =
     No_return (final_state (kernel_main 0 (boot_env_with (- 1) 0) boot_machine)) \<and>
   last (calls (final_state (kernel_main 0 (boot_env_with (- 1) 0) boot_machine))) =
     Panic (literal ''Failed to load blank.elf\<newline>'') \<and>
   terminal_row (final_state (kernel_main 0 (boot_env_with (- 1) 0) boot_machine)) = 2 \<and>
   terminal_col (final_state (kernel_main 0 (boot_env_with (- 1) 0) boot_machine)) = 0"
  using kernel_main_panics_when_load_fails
    [where env = "boot_env_with (- 1) 0" and m = boot_machine and fuel = 0]
  by (simp add: Let_def boot_env_with_def PEACHOS_ALL_OK_def boot_machine_def)

text \<open>
  C6. When both loads succeed, \<open>kernel_main\<close> calls \<open>process_load_switch\<close> on
  \<open>0:/blank.elf\<close> twice and two processes are added, in two consecutive slots. In the
  end the first holds the one argument \<open>Testing!\<close> and the second the one argument
  \<open>Abc!\<close>. Both injections were given the address of the same buffer, which in the end
  reads \<open>Abc!\<close>: the arguments of the first process are as they were injected.
\<close>

theorem kernel_main_loads_two_processes:
  assumes "first_load env = PEACHOS_ALL_OK" and "second_load env = PEACHOS_ALL_OK"
  shows "let final = final_state (kernel_main fuel env m);
             n = length (processes m);
             a = argument_address env;
             buffer = command_argument_at final a
         in kernel_main fuel env m = No_return final \<and>
            processes final = processes m @
              [\<lparr>process_id = n, filename = map of_char ''0:/blank.elf'',
                program_arguments = [map of_char ''Testing!'']\<rparr>,
               \<lparr>process_id = n + 1, filename = map of_char ''0:/blank.elf'',
                program_arguments = [map of_char ''Abc!'']\<rparr>] \<and>
            drop (length (calls m) + 16) (calls final) =
              [Process_load_switch (literal ''0:/blank.elf''),
               Memset_argument, Strcpy (literal ''Testing!''),
               Process_inject_arguments (Some n) a,
               Process_load_switch (literal ''0:/blank.elf''), Strcpy (literal ''Abc!''),
               Process_inject_arguments (Some (n + 1)) a, Task_run_first_ever_task] \<and>
            takeWhile (\<lambda>b. b \<noteq> 0) (argument buffer) = map of_char ''Abc!'' \<and>
            next_ptr buffer = None"
  using assms
  by (simp add: kernel_main_def Let_def kernel_main_rest_loads kernel_main_tables_fields
      literal_def)

theorem kernel_main_loads_two_processes_witness:
  "first_load (boot_env_with 0 0) = PEACHOS_ALL_OK \<and>
   second_load (boot_env_with 0 0) = PEACHOS_ALL_OK \<and>
   map process_id (processes (final_state (kernel_main 0 (boot_env_with 0 0) boot_machine))) =
     [0, 1] \<and>
   concat (map program_arguments
       (processes (final_state (kernel_main 0 (boot_env_with 0 0) boot_machine)))) =
     [map of_char ''Testing!'', map of_char ''Abc!'']"
  using kernel_main_loads_two_processes [of "boot_env_with 0 0" 0 boot_machine]
  by (simp add: Let_def boot_env_with_def PEACHOS_ALL_OK_def boot_machine_def)

end
